theory Spec2Isabelle
  imports Complex_Main "HOL-Library.Word"
begin

section \<open>The SDL2 game window: data model\<close>

text \<open>
  The development follows \<^verbatim>\<open>src/window_sdl2.cpp\<close>. The window object owns two
  mutable fields, \<^verbatim>\<open>captured\<close> and \<^verbatim>\<open>gamepad.count\<close>; everything else it does is a
  call into the engine's callback surface, into SDL, or a \<^verbatim>\<open>printf\<close>. Those calls
  are recorded, in order, in a ghost field \<open>effects\<close>.

  Fixed-width fields of SDL's event structs that are only compared or passed on
  (\<^verbatim>\<open>Sint32\<close> coordinates, \<^verbatim>\<open>Sint16\<close> axis values, device indices, scancodes) are
  integers of type \<open>int\<close>: the code does no arithmetic on them that could leave
  their range. \<^verbatim>\<open>Uint8\<close> fields are \<open>8 word\<close>. The \<^verbatim>\<open>double\<close> arguments of the
  scroll and axis callbacks are \<open>real\<close>: every value the code passes there is an
  integer or an integer divided by \<open>32768\<close>, which \<^verbatim>\<open>double\<close> represents exactly.
\<close>

type_synonym Uint8 = "8 word"

type_synonym KeyCode = int
  \<comment> \<open>the underlying value of a \<^verbatim>\<open>KeyCode\<close>: the code casts integers to it and back\<close>

datatype KeyAction = KeyAction_PRESS | KeyAction_RELEASE | KeyAction_REPEAT

datatype MouseButtonAction = MouseButtonAction_PRESS | MouseButtonAction_RELEASE

datatype GamepadAxisId =
    GamepadAxisId_LEFT_X | GamepadAxisId_LEFT_Y
  | GamepadAxisId_RIGHT_X | GamepadAxisId_RIGHT_Y
  | GamepadAxisId_LEFT_TRIGGER | GamepadAxisId_RIGHT_TRIGGER

datatype GamepadButtonId =
    GamepadButtonId_A | GamepadButtonId_B | GamepadButtonId_X | GamepadButtonId_Y
  | GamepadButtonId_BACK | GamepadButtonId_START | GamepadButtonId_GUIDE
  | GamepadButtonId_LEFT_STICK | GamepadButtonId_RIGHT_STICK
  | GamepadButtonId_LB | GamepadButtonId_RB
  | GamepadButtonId_DPAD_UP | GamepadButtonId_DPAD_DOWN
  | GamepadButtonId_DPAD_LEFT | GamepadButtonId_DPAD_RIGHT

text \<open>
  The diagnostics the window prints. The parts of a message that SDL supplies
  (\<^verbatim>\<open>SDL_GetError()\<close>, the controller's name, \<^verbatim>\<open>SDL_NumJoysticks()\<close>) are left out.
\<close>

datatype Diagnostic =
    Couldnt_open_controller
  | Controller_opened int
  | Controller_removed_when_none_connected
  | Controller_removed int
  | Connected_joysticks

datatype Effect =
    onKeyboard KeyCode KeyAction
  | onKeyboardText "Uint8 list"
  | onMouseButton int int Uint8 MouseButtonAction
  | onMouseScroll real real real real
  | onMousePosition int int
  | onMouseRelativePosition int int
  | onGamepadState int bool
  | onGamepadAxis int GamepadAxisId real
  | onGamepadButton int GamepadButtonId bool
  | printf Diagnostic
  | SDL_CaptureMouse bool
  | SDL_Quit

record SDL2GameWindow =
  captured :: bool
  gamepad_count :: int
  effects :: "Effect list"

text \<open>
  The window after its constructor has run: \<^verbatim>\<open>captured = false\<close> in the constructor,
  \<^verbatim>\<open>gamepad.count = 0\<close> in \<^verbatim>\<open>initSDL\<close>.
\<close>

definition constructed :: SDL2GameWindow where
  "constructed = \<lparr>captured = False, gamepad_count = 0, effects = []\<rparr>"

definition emit :: "SDL2GameWindow \<Rightarrow> Effect \<Rightarrow> SDL2GameWindow" where
  "emit w x = w\<lparr>effects := effects w @ [x]\<rparr>"

section \<open>Mouse\<close>

record SDL_MouseWheelEvent =
  wheel_x :: int
  wheel_y :: int

record SDL_MouseMotionEvent =
  motion_x :: int
  motion_y :: int
  xrel :: int
  yrel :: int

record SDL_MouseButtonEvent =
  click_button :: Uint8
  click_state :: Uint8
  click_x :: int
  click_y :: int

definition SDL_RELEASED :: Uint8 where "SDL_RELEASED = 0"
definition SDL_PRESSED :: Uint8 where "SDL_PRESSED = 1"

definition handleMouseWheelEvent :: "SDL2GameWindow \<Rightarrow> SDL_MouseWheelEvent \<Rightarrow> SDL2GameWindow" where
  "handleMouseWheelEvent w wheelevent =
     (if wheel_x wheelevent < 0 then
        emit w (onMouseScroll (real_of_int (wheel_x wheelevent)) (real_of_int (wheel_y wheelevent)) (-1) 0)
      else if wheel_x wheelevent > 0 then
        emit w (onMouseScroll (real_of_int (wheel_x wheelevent)) (real_of_int (wheel_y wheelevent)) 1 0)
      else if wheel_y wheelevent < 0 then
        emit w (onMouseScroll 0 0 0 (-1))
      else if wheel_y wheelevent > 0 then
        emit w (onMouseScroll 0 0 0 1)
      else w)"

definition handleMouseMotionEvent :: "SDL2GameWindow \<Rightarrow> SDL_MouseMotionEvent \<Rightarrow> SDL2GameWindow" where
  "handleMouseMotionEvent w motionevent =
     (if captured w then
        emit w (onMouseRelativePosition (xrel motionevent) (yrel motionevent))
      else
        emit w (onMousePosition (motion_x motionevent) (motion_y motionevent)))"

definition handleMouseClickEvent :: "SDL2GameWindow \<Rightarrow> SDL_MouseButtonEvent \<Rightarrow> SDL2GameWindow" where
  "handleMouseClickEvent w clickevent =
     emit w (onMouseButton (click_x clickevent) (click_y clickevent) (click_button clickevent)
       (if click_state clickevent = SDL_PRESSED then MouseButtonAction_PRESS
        else MouseButtonAction_RELEASE))"

definition setCursorDisabled :: "SDL2GameWindow \<Rightarrow> bool \<Rightarrow> SDL2GameWindow" where
  "setCursorDisabled w disabled = emit (w\<lparr>captured := disabled\<rparr>) (SDL_CaptureMouse disabled)"

section \<open>Gamepads\<close>

text \<open>
  \<^verbatim>\<open>handleControllerDeviceEvent\<close> reads the event's \<^verbatim>\<open>type\<close> itself, so the model
  keeps it, with the third type SDL gives a controller device event
  (\<^verbatim>\<open>SDL_CONTROLLERDEVICEREMAPPED\<close>) for the function's last \<^verbatim>\<open>else\<close>.

  \<^verbatim>\<open>SDL_GameControllerOpen(which)\<close> is a call into SDL whose result the code only tests
  against \<^verbatim>\<open>NULL\<close>. The field \<open>opens\<close> says whether the call made while this
  event is handled returns a controller; it is an input of the model.

  \<^verbatim>\<open>gamepad.count\<close> is declared in \<^verbatim>\<open>window_sdl2.h\<close>; it is an unbounded integer here.
\<close>

datatype ControllerDeviceEventType =
    SDL_CONTROLLERDEVICEADDED | SDL_CONTROLLERDEVICEREMOVED | SDL_CONTROLLERDEVICEREMAPPED

record SDL_ControllerDeviceEvent =
  cdevice_type :: ControllerDeviceEventType
  which :: int
  opens :: bool

definition handleControllerDeviceEvent ::
  "SDL2GameWindow \<Rightarrow> SDL_ControllerDeviceEvent \<Rightarrow> SDL2GameWindow" where
  "handleControllerDeviceEvent w cdeviceevent =
     (if cdevice_type cdeviceevent = SDL_CONTROLLERDEVICEADDED then
        (let w1 = w\<lparr>gamepad_count := gamepad_count w + 1\<rparr>;
             w2 = (if \<not> opens cdeviceevent then emit w1 (printf Couldnt_open_controller)
                   else emit w1 (printf (Controller_opened (which cdeviceevent))))
         in if gamepad_count w2 > 1 then w2
            else emit (emit w2 (printf Connected_joysticks))
                   (onGamepadState 0 (cdevice_type cdeviceevent = SDL_CONTROLLERDEVICEADDED)))
      else if cdevice_type cdeviceevent = SDL_CONTROLLERDEVICEREMOVED then
        (if gamepad_count w < 1 then emit w (printf Controller_removed_when_none_connected)
         else
           (let w1 = w\<lparr>gamepad_count := gamepad_count w - 1\<rparr>;
                w2 = emit w1 (printf (Controller_removed (which cdeviceevent)))
            in if gamepad_count w2 > 0 then w2
               else emit (emit w2 (printf Connected_joysticks))
                      (onGamepadState 0 (cdevice_type cdeviceevent = SDL_CONTROLLERDEVICEADDED))))
      else w)"

text \<open>The values of SDL's axis and button enumerations, from \<^verbatim>\<open>SDL_gamecontroller.h\<close>.\<close>

definition SDL_CONTROLLER_AXIS_LEFTX :: Uint8 where "SDL_CONTROLLER_AXIS_LEFTX = 0"
definition SDL_CONTROLLER_AXIS_LEFTY :: Uint8 where "SDL_CONTROLLER_AXIS_LEFTY = 1"
definition SDL_CONTROLLER_AXIS_RIGHTX :: Uint8 where "SDL_CONTROLLER_AXIS_RIGHTX = 2"
definition SDL_CONTROLLER_AXIS_RIGHTY :: Uint8 where "SDL_CONTROLLER_AXIS_RIGHTY = 3"
definition SDL_CONTROLLER_AXIS_TRIGGERLEFT :: Uint8 where "SDL_CONTROLLER_AXIS_TRIGGERLEFT = 4"
definition SDL_CONTROLLER_AXIS_TRIGGERRIGHT :: Uint8 where "SDL_CONTROLLER_AXIS_TRIGGERRIGHT = 5"

record SDL_ControllerAxisEvent =
  axis :: Uint8
  axis_value :: int

definition handleControllerAxisEvent ::
  "SDL2GameWindow \<Rightarrow> SDL_ControllerAxisEvent \<Rightarrow> SDL2GameWindow" where
  "handleControllerAxisEvent w caxisevent =
     (let a = axis caxisevent;
          deflection = real_of_int (axis_value caxisevent) / 32768 in
      if a = SDL_CONTROLLER_AXIS_LEFTX then emit w (onGamepadAxis 0 GamepadAxisId_LEFT_X deflection)
      else if a = SDL_CONTROLLER_AXIS_LEFTY then emit w (onGamepadAxis 0 GamepadAxisId_LEFT_Y deflection)
      else if a = SDL_CONTROLLER_AXIS_RIGHTX then emit w (onGamepadAxis 0 GamepadAxisId_RIGHT_X deflection)
      else if a = SDL_CONTROLLER_AXIS_RIGHTY then emit w (onGamepadAxis 0 GamepadAxisId_RIGHT_Y deflection)
      else if a = SDL_CONTROLLER_AXIS_TRIGGERLEFT then
        emit w (onGamepadAxis 0 GamepadAxisId_LEFT_TRIGGER deflection)
      else if a = SDL_CONTROLLER_AXIS_TRIGGERRIGHT then
        emit w (onGamepadAxis 0 GamepadAxisId_RIGHT_TRIGGER deflection)
      else w)"

definition SDL_CONTROLLER_BUTTON_A :: Uint8 where "SDL_CONTROLLER_BUTTON_A = 0"
definition SDL_CONTROLLER_BUTTON_B :: Uint8 where "SDL_CONTROLLER_BUTTON_B = 1"
definition SDL_CONTROLLER_BUTTON_X :: Uint8 where "SDL_CONTROLLER_BUTTON_X = 2"
definition SDL_CONTROLLER_BUTTON_Y :: Uint8 where "SDL_CONTROLLER_BUTTON_Y = 3"
definition SDL_CONTROLLER_BUTTON_BACK :: Uint8 where "SDL_CONTROLLER_BUTTON_BACK = 4"
definition SDL_CONTROLLER_BUTTON_GUIDE :: Uint8 where "SDL_CONTROLLER_BUTTON_GUIDE = 5"
definition SDL_CONTROLLER_BUTTON_START :: Uint8 where "SDL_CONTROLLER_BUTTON_START = 6"
definition SDL_CONTROLLER_BUTTON_LEFTSTICK :: Uint8 where "SDL_CONTROLLER_BUTTON_LEFTSTICK = 7"
definition SDL_CONTROLLER_BUTTON_RIGHTSTICK :: Uint8 where "SDL_CONTROLLER_BUTTON_RIGHTSTICK = 8"
definition SDL_CONTROLLER_BUTTON_LEFTSHOULDER :: Uint8 where "SDL_CONTROLLER_BUTTON_LEFTSHOULDER = 9"
definition SDL_CONTROLLER_BUTTON_RIGHTSHOULDER :: Uint8 where "SDL_CONTROLLER_BUTTON_RIGHTSHOULDER = 10"
definition SDL_CONTROLLER_BUTTON_DPAD_UP :: Uint8 where "SDL_CONTROLLER_BUTTON_DPAD_UP = 11"
definition SDL_CONTROLLER_BUTTON_DPAD_DOWN :: Uint8 where "SDL_CONTROLLER_BUTTON_DPAD_DOWN = 12"
definition SDL_CONTROLLER_BUTTON_DPAD_LEFT :: Uint8 where "SDL_CONTROLLER_BUTTON_DPAD_LEFT = 13"
definition SDL_CONTROLLER_BUTTON_DPAD_RIGHT :: Uint8 where "SDL_CONTROLLER_BUTTON_DPAD_RIGHT = 14"

record SDL_ControllerButtonEvent =
  cbutton :: Uint8
  cbutton_state :: Uint8

definition controller_button :: "Uint8 \<Rightarrow> GamepadButtonId option" where
  \<comment> \<open>the \<^verbatim>\<open>switch\<close> of \<^verbatim>\<open>handleControllerButtonEvent\<close>; \<open>None\<close> is its \<^verbatim>\<open>default: return\<close>\<close>
  "controller_button b =
     (if b = SDL_CONTROLLER_BUTTON_A then Some GamepadButtonId_A
      else if b = SDL_CONTROLLER_BUTTON_B then Some GamepadButtonId_B
      else if b = SDL_CONTROLLER_BUTTON_X then Some GamepadButtonId_X
      else if b = SDL_CONTROLLER_BUTTON_Y then Some GamepadButtonId_Y
      else if b = SDL_CONTROLLER_BUTTON_BACK then Some GamepadButtonId_BACK
      else if b = SDL_CONTROLLER_BUTTON_START then Some GamepadButtonId_START
      else if b = SDL_CONTROLLER_BUTTON_GUIDE then Some GamepadButtonId_GUIDE
      else if b = SDL_CONTROLLER_BUTTON_LEFTSTICK then Some GamepadButtonId_LEFT_STICK
      else if b = SDL_CONTROLLER_BUTTON_RIGHTSTICK then Some GamepadButtonId_RIGHT_STICK
      else if b = SDL_CONTROLLER_BUTTON_LEFTSHOULDER then Some GamepadButtonId_LB
      else if b = SDL_CONTROLLER_BUTTON_RIGHTSHOULDER then Some GamepadButtonId_RB
      else if b = SDL_CONTROLLER_BUTTON_DPAD_UP then Some GamepadButtonId_DPAD_UP
      else if b = SDL_CONTROLLER_BUTTON_DPAD_DOWN then Some GamepadButtonId_DPAD_DOWN
      else if b = SDL_CONTROLLER_BUTTON_DPAD_LEFT then Some GamepadButtonId_DPAD_LEFT
      else if b = SDL_CONTROLLER_BUTTON_DPAD_RIGHT then Some GamepadButtonId_DPAD_RIGHT
      else None)"

definition handleControllerButtonEvent ::
  "SDL2GameWindow \<Rightarrow> SDL_ControllerButtonEvent \<Rightarrow> SDL2GameWindow" where
  "handleControllerButtonEvent w cbuttonevent =
     (case controller_button (cbutton cbuttonevent) of
        None \<Rightarrow> w
      | Some btn \<Rightarrow> emit w (onGamepadButton 0 btn (cbutton_state cbuttonevent = SDL_PRESSED)))"

section \<open>Keyboard\<close>

text \<open>
  \<^verbatim>\<open>enum class KeyCode\<close> is declared in the engine's \<^verbatim>\<open>game_window.h\<close>, which is not
  part of the sources at hand. The code needs the integer behind each enumerator
  (it casts \<^verbatim>\<open>keyCode+61\<close> to a \<^verbatim>\<open>KeyCode\<close> and a \<^verbatim>\<open>KeyCode\<close> to \<^verbatim>\<open>int\<close>), so the
  declaration is a parameter \<open>kc\<close> of the model: the enumerators the code names
  form the type \<open>KeyCodeName\<close>, and \<open>kc\<close> gives each its value.
\<close>

datatype KeyCodeName =
    KeyCode_UNKNOWN | KeyCode_NUM_0 | KeyCode_NUM_1 | KeyCode_NUM_2
  | KeyCode_NUM_3 | KeyCode_NUM_4 | KeyCode_NUM_5 | KeyCode_NUM_6
  | KeyCode_NUM_7 | KeyCode_NUM_8 | KeyCode_NUM_9 | KeyCode_BACKSLASH
  | KeyCode_HOME | KeyCode_BACK | KeyCode_BACKSPACE | KeyCode_CAPS_LOCK
  | KeyCode_COMMA | KeyCode_DELETE | KeyCode_DOWN | KeyCode_END
  | KeyCode_EQUAL | KeyCode_ESCAPE | KeyCode_INSERT | KeyCode_NUMPAD_0
  | KeyCode_NUMPAD_1 | KeyCode_NUMPAD_2 | KeyCode_NUMPAD_3 | KeyCode_NUMPAD_4
  | KeyCode_NUMPAD_5 | KeyCode_NUMPAD_6 | KeyCode_NUMPAD_7 | KeyCode_NUMPAD_8
  | KeyCode_NUMPAD_9 | KeyCode_NUMPAD_SUBTRACT | KeyCode_NUMPAD_ADD | KeyCode_LEFT_ALT
  | KeyCode_LEFT_CTRL | KeyCode_LEFT | KeyCode_LEFT_BRACKET | KeyCode_LEFT_SHIFT
  | KeyCode_MENU | KeyCode_MINUS | KeyCode_PAGE_DOWN | KeyCode_PAGE_UP
  | KeyCode_PERIOD | KeyCode_RIGHT_ALT | KeyCode_RIGHT_CTRL | KeyCode_RIGHT
  | KeyCode_RIGHT_BRACKET | KeyCode_RIGHT_SHIFT | KeyCode_SEMICOLON | KeyCode_SLASH
  | KeyCode_SPACE | KeyCode_TAB | KeyCode_ENTER

type_synonym KeyCodeEnum = "KeyCodeName \<Rightarrow> int"

text \<open>
  SDL's scancodes (\<^verbatim>\<open>SDL_scancode.h\<close>): the USB keyboard usage ids, and SDL's own
  numbers from 257 on for the application-control keys.
\<close>

definition SDL_SCANCODE_A :: int where "SDL_SCANCODE_A = 4"
definition SDL_SCANCODE_Z :: int where "SDL_SCANCODE_Z = 29"
definition SDL_SCANCODE_1 :: int where "SDL_SCANCODE_1 = 30"
definition SDL_SCANCODE_2 :: int where "SDL_SCANCODE_2 = 31"
definition SDL_SCANCODE_3 :: int where "SDL_SCANCODE_3 = 32"
definition SDL_SCANCODE_4 :: int where "SDL_SCANCODE_4 = 33"
definition SDL_SCANCODE_5 :: int where "SDL_SCANCODE_5 = 34"
definition SDL_SCANCODE_6 :: int where "SDL_SCANCODE_6 = 35"
definition SDL_SCANCODE_7 :: int where "SDL_SCANCODE_7 = 36"
definition SDL_SCANCODE_8 :: int where "SDL_SCANCODE_8 = 37"
definition SDL_SCANCODE_9 :: int where "SDL_SCANCODE_9 = 38"
definition SDL_SCANCODE_0 :: int where "SDL_SCANCODE_0 = 39"
definition SDL_SCANCODE_ESCAPE :: int where "SDL_SCANCODE_ESCAPE = 41"
definition SDL_SCANCODE_BACKSPACE :: int where "SDL_SCANCODE_BACKSPACE = 42"
definition SDL_SCANCODE_TAB :: int where "SDL_SCANCODE_TAB = 43"
definition SDL_SCANCODE_SPACE :: int where "SDL_SCANCODE_SPACE = 44"
definition SDL_SCANCODE_MINUS :: int where "SDL_SCANCODE_MINUS = 45"
definition SDL_SCANCODE_EQUALS :: int where "SDL_SCANCODE_EQUALS = 46"
definition SDL_SCANCODE_LEFTBRACKET :: int where "SDL_SCANCODE_LEFTBRACKET = 47"
definition SDL_SCANCODE_RIGHTBRACKET :: int where "SDL_SCANCODE_RIGHTBRACKET = 48"
definition SDL_SCANCODE_BACKSLASH :: int where "SDL_SCANCODE_BACKSLASH = 49"
definition SDL_SCANCODE_SEMICOLON :: int where "SDL_SCANCODE_SEMICOLON = 51"
definition SDL_SCANCODE_COMMA :: int where "SDL_SCANCODE_COMMA = 54"
definition SDL_SCANCODE_PERIOD :: int where "SDL_SCANCODE_PERIOD = 55"
definition SDL_SCANCODE_SLASH :: int where "SDL_SCANCODE_SLASH = 56"
definition SDL_SCANCODE_CAPSLOCK :: int where "SDL_SCANCODE_CAPSLOCK = 57"
definition SDL_SCANCODE_INSERT :: int where "SDL_SCANCODE_INSERT = 73"
definition SDL_SCANCODE_HOME :: int where "SDL_SCANCODE_HOME = 74"
definition SDL_SCANCODE_PAGEUP :: int where "SDL_SCANCODE_PAGEUP = 75"
definition SDL_SCANCODE_DELETE :: int where "SDL_SCANCODE_DELETE = 76"
definition SDL_SCANCODE_END :: int where "SDL_SCANCODE_END = 77"
definition SDL_SCANCODE_PAGEDOWN :: int where "SDL_SCANCODE_PAGEDOWN = 78"
definition SDL_SCANCODE_RIGHT :: int where "SDL_SCANCODE_RIGHT = 79"
definition SDL_SCANCODE_LEFT :: int where "SDL_SCANCODE_LEFT = 80"
definition SDL_SCANCODE_DOWN :: int where "SDL_SCANCODE_DOWN = 81"
definition SDL_SCANCODE_KP_MINUS :: int where "SDL_SCANCODE_KP_MINUS = 86"
definition SDL_SCANCODE_KP_PLUS :: int where "SDL_SCANCODE_KP_PLUS = 87"
definition SDL_SCANCODE_KP_1 :: int where "SDL_SCANCODE_KP_1 = 89"
definition SDL_SCANCODE_KP_2 :: int where "SDL_SCANCODE_KP_2 = 90"
definition SDL_SCANCODE_KP_3 :: int where "SDL_SCANCODE_KP_3 = 91"
definition SDL_SCANCODE_KP_4 :: int where "SDL_SCANCODE_KP_4 = 92"
definition SDL_SCANCODE_KP_5 :: int where "SDL_SCANCODE_KP_5 = 93"
definition SDL_SCANCODE_KP_6 :: int where "SDL_SCANCODE_KP_6 = 94"
definition SDL_SCANCODE_KP_7 :: int where "SDL_SCANCODE_KP_7 = 95"
definition SDL_SCANCODE_KP_8 :: int where "SDL_SCANCODE_KP_8 = 96"
definition SDL_SCANCODE_KP_9 :: int where "SDL_SCANCODE_KP_9 = 97"
definition SDL_SCANCODE_KP_0 :: int where "SDL_SCANCODE_KP_0 = 98"
definition SDL_SCANCODE_MENU :: int where "SDL_SCANCODE_MENU = 118"
definition SDL_SCANCODE_LCTRL :: int where "SDL_SCANCODE_LCTRL = 224"
definition SDL_SCANCODE_LSHIFT :: int where "SDL_SCANCODE_LSHIFT = 225"
definition SDL_SCANCODE_LALT :: int where "SDL_SCANCODE_LALT = 226"
definition SDL_SCANCODE_RCTRL :: int where "SDL_SCANCODE_RCTRL = 228"
definition SDL_SCANCODE_RSHIFT :: int where "SDL_SCANCODE_RSHIFT = 229"
definition SDL_SCANCODE_RALT :: int where "SDL_SCANCODE_RALT = 230"
definition SDL_SCANCODE_AC_HOME :: int where "SDL_SCANCODE_AC_HOME = 269"
definition SDL_SCANCODE_AC_BACK :: int where "SDL_SCANCODE_AC_BACK = 270"

text \<open>
  The \<^verbatim>\<open>switch\<close> of \<^verbatim>\<open>getKeyMinecraft\<close>, case by case in source order (C++ requires
  the labels of a \<^verbatim>\<open>switch\<close> to be pairwise different, so the order decides nothing).
  \<^verbatim>\<open>case SDL_SCANCODE_A ... SDL_SCANCODE_Z\<close> is GCC's case range, both ends included.
\<close>

definition getKeyMinecraft :: "KeyCodeEnum \<Rightarrow> int \<Rightarrow> KeyCode" where
  "getKeyMinecraft kc keyCode =
     (if keyCode = SDL_SCANCODE_0 then kc KeyCode_NUM_0
      else if keyCode = SDL_SCANCODE_1 then kc KeyCode_NUM_1
      else if keyCode = SDL_SCANCODE_2 then kc KeyCode_NUM_2
      else if keyCode = SDL_SCANCODE_3 then kc KeyCode_NUM_3
      else if keyCode = SDL_SCANCODE_4 then kc KeyCode_NUM_4
      else if keyCode = SDL_SCANCODE_5 then kc KeyCode_NUM_5
      else if keyCode = SDL_SCANCODE_6 then kc KeyCode_NUM_6
      else if keyCode = SDL_SCANCODE_7 then kc KeyCode_NUM_7
      else if keyCode = SDL_SCANCODE_8 then kc KeyCode_NUM_8
      else if keyCode = SDL_SCANCODE_9 then kc KeyCode_NUM_9
      else if SDL_SCANCODE_A \<le> keyCode \<and> keyCode \<le> SDL_SCANCODE_Z then keyCode + 61
      else if keyCode = SDL_SCANCODE_BACKSLASH then kc KeyCode_BACKSLASH
      else if keyCode = SDL_SCANCODE_AC_HOME then kc KeyCode_HOME
      else if keyCode = SDL_SCANCODE_AC_BACK then kc KeyCode_BACK
      else if keyCode = SDL_SCANCODE_BACKSPACE then kc KeyCode_BACKSPACE
      else if keyCode = SDL_SCANCODE_CAPSLOCK then kc KeyCode_CAPS_LOCK
      else if keyCode = SDL_SCANCODE_COMMA then kc KeyCode_COMMA
      else if keyCode = SDL_SCANCODE_DELETE then kc KeyCode_DELETE
      else if keyCode = SDL_SCANCODE_DOWN then kc KeyCode_DOWN
      else if keyCode = SDL_SCANCODE_END then kc KeyCode_END
      else if keyCode = SDL_SCANCODE_EQUALS then kc KeyCode_EQUAL
      else if keyCode = SDL_SCANCODE_ESCAPE then kc KeyCode_ESCAPE
      else if keyCode = SDL_SCANCODE_HOME then kc KeyCode_HOME
      else if keyCode = SDL_SCANCODE_INSERT then kc KeyCode_INSERT
      else if keyCode = SDL_SCANCODE_KP_0 then kc KeyCode_NUMPAD_0
      else if keyCode = SDL_SCANCODE_KP_1 then kc KeyCode_NUMPAD_1
      else if keyCode = SDL_SCANCODE_KP_2 then kc KeyCode_NUMPAD_2
      else if keyCode = SDL_SCANCODE_KP_3 then kc KeyCode_NUMPAD_3
      else if keyCode = SDL_SCANCODE_KP_4 then kc KeyCode_NUMPAD_4
      else if keyCode = SDL_SCANCODE_KP_5 then kc KeyCode_NUMPAD_5
      else if keyCode = SDL_SCANCODE_KP_6 then kc KeyCode_NUMPAD_6
      else if keyCode = SDL_SCANCODE_KP_7 then kc KeyCode_NUMPAD_7
      else if keyCode = SDL_SCANCODE_KP_8 then kc KeyCode_NUMPAD_8
      else if keyCode = SDL_SCANCODE_KP_9 then kc KeyCode_NUMPAD_9
      else if keyCode = SDL_SCANCODE_KP_MINUS then kc KeyCode_NUMPAD_SUBTRACT
      else if keyCode = SDL_SCANCODE_KP_PLUS then kc KeyCode_NUMPAD_ADD
      else if keyCode = SDL_SCANCODE_LALT then kc KeyCode_LEFT_ALT
      else if keyCode = SDL_SCANCODE_LCTRL then kc KeyCode_LEFT_CTRL
      else if keyCode = SDL_SCANCODE_LEFT then kc KeyCode_LEFT
      else if keyCode = SDL_SCANCODE_LEFTBRACKET then kc KeyCode_LEFT_BRACKET
      else if keyCode = SDL_SCANCODE_LSHIFT then kc KeyCode_LEFT_SHIFT
      else if keyCode = SDL_SCANCODE_MENU then kc KeyCode_MENU
      else if keyCode = SDL_SCANCODE_MINUS then kc KeyCode_MINUS
      else if keyCode = SDL_SCANCODE_PAGEDOWN then kc KeyCode_PAGE_DOWN
      else if keyCode = SDL_SCANCODE_PAGEUP then kc KeyCode_PAGE_UP
      else if keyCode = SDL_SCANCODE_PERIOD then kc KeyCode_PERIOD
      else if keyCode = SDL_SCANCODE_RALT then kc KeyCode_RIGHT_ALT
      else if keyCode = SDL_SCANCODE_RCTRL then kc KeyCode_RIGHT_CTRL
      else if keyCode = SDL_SCANCODE_RIGHT then kc KeyCode_RIGHT
      else if keyCode = SDL_SCANCODE_RIGHTBRACKET then kc KeyCode_RIGHT_BRACKET
      else if keyCode = SDL_SCANCODE_RSHIFT then kc KeyCode_RIGHT_SHIFT
      else if keyCode = SDL_SCANCODE_SEMICOLON then kc KeyCode_SEMICOLON
      else if keyCode = SDL_SCANCODE_SLASH then kc KeyCode_SLASH
      else if keyCode = SDL_SCANCODE_SPACE then kc KeyCode_SPACE
      else if keyCode = SDL_SCANCODE_TAB then kc KeyCode_TAB
      else kc KeyCode_UNKNOWN)"

definition case_labels :: "int list" where
  \<comment> \<open>the single-value \<^verbatim>\<open>case\<close> labels of the \<^verbatim>\<open>switch\<close>, in source order\<close>
  "case_labels =
     [SDL_SCANCODE_0, SDL_SCANCODE_1, SDL_SCANCODE_2, SDL_SCANCODE_3,
      SDL_SCANCODE_4, SDL_SCANCODE_5, SDL_SCANCODE_6, SDL_SCANCODE_7,
      SDL_SCANCODE_8, SDL_SCANCODE_9, SDL_SCANCODE_BACKSLASH, SDL_SCANCODE_AC_HOME,
      SDL_SCANCODE_AC_BACK, SDL_SCANCODE_BACKSPACE, SDL_SCANCODE_CAPSLOCK, SDL_SCANCODE_COMMA,
      SDL_SCANCODE_DELETE, SDL_SCANCODE_DOWN, SDL_SCANCODE_END, SDL_SCANCODE_EQUALS,
      SDL_SCANCODE_ESCAPE, SDL_SCANCODE_HOME, SDL_SCANCODE_INSERT, SDL_SCANCODE_KP_0,
      SDL_SCANCODE_KP_1, SDL_SCANCODE_KP_2, SDL_SCANCODE_KP_3, SDL_SCANCODE_KP_4,
      SDL_SCANCODE_KP_5, SDL_SCANCODE_KP_6, SDL_SCANCODE_KP_7, SDL_SCANCODE_KP_8,
      SDL_SCANCODE_KP_9, SDL_SCANCODE_KP_MINUS, SDL_SCANCODE_KP_PLUS, SDL_SCANCODE_LALT,
      SDL_SCANCODE_LCTRL, SDL_SCANCODE_LEFT, SDL_SCANCODE_LEFTBRACKET, SDL_SCANCODE_LSHIFT,
      SDL_SCANCODE_MENU, SDL_SCANCODE_MINUS, SDL_SCANCODE_PAGEDOWN, SDL_SCANCODE_PAGEUP,
      SDL_SCANCODE_PERIOD, SDL_SCANCODE_RALT, SDL_SCANCODE_RCTRL, SDL_SCANCODE_RIGHT,
      SDL_SCANCODE_RIGHTBRACKET, SDL_SCANCODE_RSHIFT, SDL_SCANCODE_SEMICOLON, SDL_SCANCODE_SLASH,
      SDL_SCANCODE_SPACE, SDL_SCANCODE_TAB]"

definition digit_scancodes :: "int list" where
  "digit_scancodes =
     [SDL_SCANCODE_0, SDL_SCANCODE_1, SDL_SCANCODE_2, SDL_SCANCODE_3, SDL_SCANCODE_4,
      SDL_SCANCODE_5, SDL_SCANCODE_6, SDL_SCANCODE_7, SDL_SCANCODE_8, SDL_SCANCODE_9]"

definition digit_names :: "KeyCodeName list" where
  "digit_names =
     [KeyCode_NUM_0, KeyCode_NUM_1, KeyCode_NUM_2, KeyCode_NUM_3, KeyCode_NUM_4,
      KeyCode_NUM_5, KeyCode_NUM_6, KeyCode_NUM_7, KeyCode_NUM_8, KeyCode_NUM_9]"

text \<open>
  \<^verbatim>\<open>cvt.to_bytes((int)key)\<close> converts one \<^verbatim>\<open>char32_t\<close> to UTF-8 with the standard
  library's \<^verbatim>\<open>std::wstring_convert<std::codecvt_utf8<char32_t>, char32_t>\<close>. The
  \<^verbatim>\<open>int\<close> converts to \<^verbatim>\<open>char32_t\<close> modulo \<open>2 ^ 32\<close>. A value that the facet refuses
  makes \<^verbatim>\<open>to_bytes\<close> throw \<^verbatim>\<open>std::range_error\<close>, since \<^verbatim>\<open>cvt\<close> is built without an
  error string: the result \<open>None\<close>. The model refuses what lies beyond
  \<^verbatim>\<open>0x10FFFF\<close>; whether a library also refuses the surrogates \<^verbatim>\<open>0xD800..0xDFFF\<close>
  differs between implementations, and no statement below depends on it.
\<close>

definition to_bytes :: "int \<Rightarrow> Uint8 list option" where
  "to_bytes c =
     (let cp = c mod 2 ^ 32 in
      if cp < 0x80 then Some [word_of_int cp]
      else if cp < 0x800 then
        Some [word_of_int (0xC0 + cp div 64), word_of_int (0x80 + cp mod 64)]
      else if cp < 0x10000 then
        Some [word_of_int (0xE0 + cp div 4096), word_of_int (0x80 + cp div 64 mod 64),
              word_of_int (0x80 + cp mod 64)]
      else if cp < 0x110000 then
        Some [word_of_int (0xF0 + cp div 262144), word_of_int (0x80 + cp div 4096 mod 64),
              word_of_int (0x80 + cp div 64 mod 64), word_of_int (0x80 + cp mod 64)]
      else None)"

datatype KeyboardEventType = SDL_KEYDOWN | SDL_KEYUP

record SDL_KeyboardEvent =
  key_type :: KeyboardEventType
  key_state :: Uint8
  repeat :: Uint8
  scancode :: int

datatype error = range_error

text \<open>
  A handler either returns, with the window as it left it, or an exception leaves it
  (\<open>Inl\<close>), with the window as it was when the exception was thrown: the callbacks
  made before the throw have happened.
\<close>

type_synonym outcome = "(error \<times> SDL2GameWindow) + SDL2GameWindow"

text \<open>
  The inner \<^verbatim>\<open>switch(key)\<close> of \<^verbatim>\<open>handleKeyboardEvent\<close>. No case ends in \<^verbatim>\<open>break\<close>, so
  control enters at the label that matches and runs every statement from there to
  the end of the \<^verbatim>\<open>switch\<close>. \<open>text_label\<close> is the index of the label entered
  (\<open>4\<close> for \<^verbatim>\<open>default\<close>), \<open>text_statements\<close> the calls under the four \<^verbatim>\<open>case\<close>
  labels, in order; the call under \<^verbatim>\<open>default\<close> comes last.
\<close>

definition text_label :: "KeyCodeEnum \<Rightarrow> KeyCode \<Rightarrow> nat" where
  "text_label kc key =
     (if key = kc KeyCode_BACKSPACE then 0
      else if key = kc KeyCode_DELETE then 1
      else if key = kc KeyCode_ENTER then 2
      else if key = kc KeyCode_LEFT then 3
      else 4)"

definition text_statements :: "Effect list" where
  "text_statements =
     [onKeyboardText [0x08], onKeyboardText [0x7F], onKeyboardText [0x0A], onKeyboardText [0x1B]]"

definition text_switch :: "KeyCodeEnum \<Rightarrow> SDL2GameWindow \<Rightarrow> KeyCode \<Rightarrow> outcome" where
  "text_switch kc w key =
     (let w' = fold (\<lambda>x v. emit v x) (drop (text_label kc key) text_statements) w in
      case to_bytes key of
        None \<Rightarrow> Inl (range_error, w')
      | Some bytes \<Rightarrow> Inr (emit w' (onKeyboardText bytes)))"

definition handleKeyboardEvent ::
  "KeyCodeEnum \<Rightarrow> SDL2GameWindow \<Rightarrow> SDL_KeyboardEvent \<Rightarrow> outcome" where
  "handleKeyboardEvent kc w keyevent =
     (let key = getKeyMinecraft kc (scancode keyevent) in
      if repeat keyevent \<noteq> 0 then Inr (emit w (onKeyboard key KeyAction_REPEAT))
      else if key_state keyevent = SDL_PRESSED then
        (case text_switch kc w key of
           Inl thrown \<Rightarrow> Inl thrown
         | Inr w' \<Rightarrow> Inr (emit w' (onKeyboard key KeyAction_PRESS)))
      else if key_state keyevent = SDL_RELEASED then
        Inr (emit w (onKeyboard key KeyAction_RELEASE))
      else Inr w)"

section \<open>The poll loop\<close>

text \<open>
  An \<^verbatim>\<open>SDL_Event\<close> is a union discriminated by its \<^verbatim>\<open>type\<close>. Each constructor below
  is one member of the union together with the event types that select it; where
  the code tells two types of one member apart (\<^verbatim>\<open>SDL_KEYDOWN\<close> and \<^verbatim>\<open>SDL_KEYUP\<close>; the
  controller device types) the member's record carries the type. \<open>Event_other\<close>
  stands for every event type the \<^verbatim>\<open>switch\<close> of \<^verbatim>\<open>pollEvents\<close> leaves to \<^verbatim>\<open>default\<close>.
\<close>

datatype SDL_Event =
    Event_cdevice SDL_ControllerDeviceEvent
  | Event_caxis SDL_ControllerAxisEvent
  | Event_cbutton SDL_ControllerButtonEvent
  | Event_motion SDL_MouseMotionEvent
  | Event_wheel SDL_MouseWheelEvent
  | Event_button SDL_MouseButtonEvent
  | Event_key SDL_KeyboardEvent
  | Event_quit
  | Event_other

text \<open>
  One turn of the loop body: the \<^verbatim>\<open>switch (event.type)\<close>. \<^verbatim>\<open>case SDL_KEYDOWN\<close> has no
  \<^verbatim>\<open>break\<close>: after its call, control runs on into the call under \<^verbatim>\<open>case SDL_KEYUP\<close>.
\<close>

fun dispatch :: "KeyCodeEnum \<Rightarrow> SDL2GameWindow \<Rightarrow> SDL_Event \<Rightarrow> outcome" where
  "dispatch kc w (Event_cdevice e) =
     (case cdevice_type e of
        SDL_CONTROLLERDEVICEADDED \<Rightarrow> Inr (handleControllerDeviceEvent w e)
      | SDL_CONTROLLERDEVICEREMOVED \<Rightarrow> Inr (handleControllerDeviceEvent w e)
      | SDL_CONTROLLERDEVICEREMAPPED \<Rightarrow> Inr w)"
| "dispatch kc w (Event_caxis e) = Inr (handleControllerAxisEvent w e)"
| "dispatch kc w (Event_cbutton e) = Inr (handleControllerButtonEvent w e)"
| "dispatch kc w (Event_motion e) = Inr (handleMouseMotionEvent w e)"
| "dispatch kc w (Event_wheel e) = Inr (handleMouseWheelEvent w e)"
| "dispatch kc w (Event_button e) = Inr (handleMouseClickEvent w e)"
| "dispatch kc w (Event_key e) =
     (case key_type e of
        SDL_KEYDOWN \<Rightarrow>
          (case handleKeyboardEvent kc w e of
             Inl thrown \<Rightarrow> Inl thrown
           | Inr w' \<Rightarrow> handleKeyboardEvent kc w' e)
      | SDL_KEYUP \<Rightarrow> handleKeyboardEvent kc w e)"
| "dispatch kc w Event_quit = Inr (emit w SDL_Quit)"
| "dispatch kc w Event_other = Inr w"

text \<open>
  \<^verbatim>\<open>while (SDL_PollEvent(&event))\<close>: the list is the sequence of events that
  \<^verbatim>\<open>SDL_PollEvent\<close> hands out before it returns \<open>0\<close>. An exception ends the loop.
\<close>

fun pollEvents :: "KeyCodeEnum \<Rightarrow> SDL2GameWindow \<Rightarrow> SDL_Event list \<Rightarrow> outcome" where
  "pollEvents kc w [] = Inr w"
| "pollEvents kc w (event # queue) =
     (case dispatch kc w event of
        Inl thrown \<Rightarrow> Inl thrown
      | Inr w' \<Rightarrow> pollEvents kc w' queue)"

section \<open>Observing a run\<close>

text \<open>The window an outcome ends with, whether the handler returned or threw.\<close>

definition final :: "outcome \<Rightarrow> SDL2GameWindow" where
  "final r = (case r of Inl (thrown, w) \<Rightarrow> w | Inr w \<Rightarrow> w)"

text \<open>The \<^verbatim>\<open>onGamepadState\<close> calls among the effects, in order.\<close>

fun gamepad_states :: "Effect list \<Rightarrow> (int \<times> bool) list" where
  "gamepad_states [] = []"
| "gamepad_states (onGamepadState slot state # xs) = (slot, state) # gamepad_states xs"
| "gamepad_states (x # xs) = gamepad_states xs"

text \<open>The \<^verbatim>\<open>onKeyboard\<close> calls and the \<^verbatim>\<open>onKeyboardText\<close> payloads among the effects.\<close>

fun keyboard_calls :: "Effect list \<Rightarrow> (KeyCode \<times> KeyAction) list" where
  "keyboard_calls [] = []"
| "keyboard_calls (onKeyboard key action # xs) = (key, action) # keyboard_calls xs"
| "keyboard_calls (x # xs) = keyboard_calls xs"

fun text_payloads :: "Effect list \<Rightarrow> Uint8 list list" where
  "text_payloads [] = []"
| "text_payloads (onKeyboardText bytes # xs) = bytes # text_payloads xs"
| "text_payloads (x # xs) = text_payloads xs"

text \<open>
  An instance of the parameter \<open>kc\<close> for the closed examples: the digits and the
  four keys of the text \<^verbatim>\<open>switch\<close> carry their customary virtual-key numbers, every
  other enumerator the number \<open>0\<close>. It stands for no particular header.
\<close>

definition example_KeyCode :: KeyCodeEnum where
  "example_KeyCode n =
     (if n = KeyCode_NUM_0 then 48 else if n = KeyCode_NUM_1 then 49
      else if n = KeyCode_NUM_2 then 50 else if n = KeyCode_NUM_3 then 51
      else if n = KeyCode_NUM_4 then 52 else if n = KeyCode_NUM_5 then 53
      else if n = KeyCode_NUM_6 then 54 else if n = KeyCode_NUM_7 then 55
      else if n = KeyCode_NUM_8 then 56 else if n = KeyCode_NUM_9 then 57
      else if n = KeyCode_BACKSPACE then 8 else if n = KeyCode_ENTER then 13
      else if n = KeyCode_LEFT then 37 else if n = KeyCode_DELETE then 46
      else 0)"

section \<open>Basic facts\<close>

lemma effects_emit [simp]: "effects (emit w x) = effects w @ [x]"
  by (simp add: emit_def)

lemma captured_emit [simp]: "captured (emit w x) = captured w"
  by (simp add: emit_def)

lemma gamepad_count_emit [simp]: "gamepad_count (emit w x) = gamepad_count w"
  by (simp add: emit_def)

lemma emit_inject [simp]: "emit w a = emit w b \<longleftrightarrow> a = b"
proof
  assume "emit w a = emit w b"
  then have "effects (emit w a) = effects (emit w b)" by simp
  then show "a = b" by simp
qed simp

lemma emit_neq [simp]: "emit w a \<noteq> w"
proof
  assume "emit w a = w"
  then have "effects (emit w a) = effects w" by simp
  then show False by simp
qed

lemma final_simps [simp]: "final (Inr w) = w" "final (Inl (t, w)) = w"
  by (simp_all add: final_def)

lemma gamepad_states_append [simp]:
  "gamepad_states (xs @ ys) = gamepad_states xs @ gamepad_states ys"
  by (induction xs rule: gamepad_states.induct) simp_all

lemma keyboard_calls_append [simp]:
  "keyboard_calls (xs @ ys) = keyboard_calls xs @ keyboard_calls ys"
  by (induction xs rule: keyboard_calls.induct) simp_all

lemma text_payloads_append [simp]:
  "text_payloads (xs @ ys) = text_payloads xs @ text_payloads ys"
  by (induction xs rule: text_payloads.induct) simp_all

lemma count_fold_emit [simp]: "gamepad_count (fold (\<lambda>x v. emit v x) xs w) = gamepad_count w"
  by (induction xs arbitrary: w) simp_all

lemma captured_fold_emit [simp]: "captured (fold (\<lambda>x v. emit v x) xs w) = captured w"
  by (induction xs arbitrary: w) simp_all

lemma effects_fold_emit [simp]: "effects (fold (\<lambda>x v. emit v x) xs w) = effects w @ xs"
  by (induction xs arbitrary: w) simp_all

section \<open>The mouse wheel\<close>

text \<open>
  Claim C9. A wheel event makes at most one \<^verbatim>\<open>onMouseScroll\<close> call and nothing else.
  The direction pair of that call has exactly one non-zero component, of absolute
  value \<open>1\<close>, and it is the sign of the deflection on that axis. A wheel event with
  horizontal deflection \<open>-3\<close> and vertical deflection \<open>0\<close> makes the one call
  \<^verbatim>\<open>onMouseScroll(-3, 0, -1.0, 0.0)\<close>.
\<close>

theorem wheel_single_unit_axis:
  "(handleMouseWheelEvent w e = w \<or>
    (\<exists>x y dx dy. handleMouseWheelEvent w e = emit w (onMouseScroll x y dx dy) \<and>
       ((dx = real_of_int (sgn (wheel_x e)) \<and> \<bar>dx\<bar> = 1 \<and> dy = 0) \<or>
        (dx = 0 \<and> dy = real_of_int (sgn (wheel_y e)) \<and> \<bar>dy\<bar> = 1)))) \<and>
   handleMouseWheelEvent w \<lparr>wheel_x = - 3, wheel_y = 0\<rparr> = emit w (onMouseScroll (- 3) 0 (- 1) 0)"
  by (auto simp add: handleMouseWheelEvent_def)

text \<open>
  Claim C10. A non-zero horizontal deflection decides the call: its direction pair
  is the sign of the horizontal deflection and \<open>0\<close>, whatever the vertical
  deflection is (the first two arguments of the call are the two raw deflections,
  as the code passes them). When both deflections are zero the handler makes no
  call and leaves the window as it was.
\<close>

theorem wheel_horizontal_first:
  "(wheel_x e \<noteq> 0 \<longrightarrow>
      handleMouseWheelEvent w e =
        emit w (onMouseScroll (real_of_int (wheel_x e)) (real_of_int (wheel_y e))
                  (real_of_int (sgn (wheel_x e))) 0)) \<and>
   (wheel_x e = 0 \<and> wheel_y e = 0 \<longrightarrow> handleMouseWheelEvent w e = w)"
  by (simp add: handleMouseWheelEvent_def)

theorem wheel_horizontal_first_witness:
  "handleMouseWheelEvent constructed \<lparr>wheel_x = 2, wheel_y = - 5\<rparr> =
     emit constructed (onMouseScroll 2 (- 5) 1 0) \<and>
   handleMouseWheelEvent constructed \<lparr>wheel_x = 0, wheel_y = 0\<rparr> = constructed"
  using wheel_horizontal_first [of "\<lparr>wheel_x = 2, wheel_y = - 5\<rparr>" constructed]
    wheel_horizontal_first [of "\<lparr>wheel_x = 0, wheel_y = 0\<rparr>" constructed]
  by simp

section \<open>Mouse motion\<close>

lemma poll_motion:
  "pollEvents kc w (map Event_motion es) =
     Inr (w\<lparr>effects := effects w @
            map (\<lambda>e. if captured w then onMouseRelativePosition (xrel e) (yrel e)
                      else onMousePosition (motion_x e) (motion_y e)) es\<rparr>)"
proof (induction es arbitrary: w)
  case Nil
  show ?case by simp
next
  case (Cons e es)
  show ?case
    by (simp add: Cons.IH handleMouseMotionEvent_def emit_def)
qed

text \<open>
  Claim C6. A motion event makes exactly one call, chosen by the capture flag as it
  stands when the event is handled: \<^verbatim>\<open>onMouseRelativePosition\<close> with the deltas when
  \<^verbatim>\<open>captured\<close> is set, \<^verbatim>\<open>onMousePosition\<close> with the absolute coordinates otherwise.
  The handler leaves the flag alone; \<^verbatim>\<open>setCursorDisabled\<close> sets it to its argument, so
  every motion event polled after the call, the first one included, is routed by
  the new value.
\<close>

theorem motion_routed_by_capture_flag:
  "handleMouseMotionEvent w e =
     emit w (if captured w then onMouseRelativePosition (xrel e) (yrel e)
             else onMousePosition (motion_x e) (motion_y e)) \<and>
   captured (handleMouseMotionEvent w e) = captured w \<and>
   captured (setCursorDisabled w d) = d \<and>
   pollEvents kc (setCursorDisabled w d) (map Event_motion es) =
     Inr (w\<lparr>captured := d,
            effects := effects w @ SDL_CaptureMouse d #
              map (\<lambda>e. if d then onMouseRelativePosition (xrel e) (yrel e)
                        else onMousePosition (motion_x e) (motion_y e)) es\<rparr>)"
  by (simp add: poll_motion) (simp add: handleMouseMotionEvent_def setCursorDisabled_def emit_def)

section \<open>The gamepad session counter\<close>

lemma count_text_switch [simp]: "gamepad_count (final (text_switch kc w key)) = gamepad_count w"
  by (simp add: text_switch_def Let_def split: option.split)

lemma count_handleKeyboardEvent [simp]:
  "gamepad_count (final (handleKeyboardEvent kc w e)) = gamepad_count w"
proof -
  have "gamepad_count (final (case text_switch kc w k of Inl t \<Rightarrow> Inl t
          | Inr w' \<Rightarrow> Inr (emit w' x))) = gamepad_count (final (text_switch kc w k))" for k x
    by (cases "text_switch kc w k") (auto simp: final_def)
  then show ?thesis
    by (simp add: handleKeyboardEvent_def Let_def)
qed

lemma count_handleControllerDeviceEvent:
  "gamepad_count (handleControllerDeviceEvent w e) =
     (case cdevice_type e of
        SDL_CONTROLLERDEVICEADDED \<Rightarrow> gamepad_count w + 1
      | SDL_CONTROLLERDEVICEREMOVED \<Rightarrow>
          if gamepad_count w < 1 then gamepad_count w else gamepad_count w - 1
      | SDL_CONTROLLERDEVICEREMAPPED \<Rightarrow> gamepad_count w)"
  by (cases "cdevice_type e") (simp_all add: handleControllerDeviceEvent_def Let_def)

lemma count_dispatch:
  "gamepad_count (final (dispatch kc w ev)) =
     (case ev of Event_cdevice e \<Rightarrow> gamepad_count (handleControllerDeviceEvent w e)
      | _ \<Rightarrow> gamepad_count w)"
proof (cases ev)
  case (Event_cdevice e)
  then show ?thesis
    by (cases "cdevice_type e") (simp_all add: count_handleControllerDeviceEvent)
next
  case (Event_key e)
  show ?thesis
  proof (cases "key_type e")
    case SDL_KEYDOWN
    show ?thesis
    proof (cases "handleKeyboardEvent kc w e")
      case (Inl t)
      with count_handleKeyboardEvent [of kc w e] SDL_KEYDOWN Event_key show ?thesis
        by simp
    next
      case (Inr w')
      with count_handleKeyboardEvent [of kc w e] count_handleKeyboardEvent [of kc w' e]
        SDL_KEYDOWN Event_key show ?thesis
        by simp
    qed
  next
    case SDL_KEYUP
    with Event_key show ?thesis by simp
  qed
qed (simp_all add: handleControllerAxisEvent_def Let_def handleControllerButtonEvent_def
      handleMouseMotionEvent_def handleMouseWheelEvent_def handleMouseClickEvent_def
      split: option.split)

lemma dispatch_count_nonneg:
  "0 \<le> gamepad_count w \<Longrightarrow> 0 \<le> gamepad_count (final (dispatch kc w ev))"
  by (simp add: count_dispatch count_handleControllerDeviceEvent
      split: SDL_Event.split ControllerDeviceEventType.split)

lemma poll_count_nonneg:
  "0 \<le> gamepad_count w \<Longrightarrow> 0 \<le> gamepad_count (final (pollEvents kc w queue))"
proof (induction queue arbitrary: w)
  case Nil
  then show ?case by simp
next
  case (Cons ev queue)
  show ?case
  proof (cases "dispatch kc w ev")
    case (Inl t)
    with dispatch_count_nonneg [OF Cons.prems, of kc ev] show ?thesis
      by (cases t) simp
  next
    case (Inr w')
    with dispatch_count_nonneg [OF Cons.prems, of kc ev] have "0 \<le> gamepad_count w'"
      by simp
    then have "0 \<le> gamepad_count (final (pollEvents kc w' queue))"
      by (rule Cons.IH)
    with Inr show ?thesis by simp
  qed
qed

text \<open>
  Claim C5. From a window whose count is not negative, a controller device event
  leaves the count not negative and moves it by at most \<open>1\<close>: a connect adds \<open>1\<close>,
  a disconnect with a count of at least \<open>1\<close> takes \<open>1\<close> away, and a disconnect
  at count \<open>0\<close> prints the inconsistency and changes nothing else (no callback,
  same count). No other event of the poll loop touches the count, so it moves by at
  most \<open>1\<close> per polled event and is not negative after any queue.
\<close>

theorem gamepad_count_never_negative:
  assumes "0 \<le> gamepad_count w"
  shows "0 \<le> gamepad_count (handleControllerDeviceEvent w e) \<and>
    \<bar>gamepad_count (handleControllerDeviceEvent w e) - gamepad_count w\<bar> \<le> 1 \<and>
    (cdevice_type e = SDL_CONTROLLERDEVICEADDED \<longrightarrow>
       gamepad_count (handleControllerDeviceEvent w e) = gamepad_count w + 1) \<and>
    (cdevice_type e = SDL_CONTROLLERDEVICEREMOVED \<and> 1 \<le> gamepad_count w \<longrightarrow>
       gamepad_count (handleControllerDeviceEvent w e) = gamepad_count w - 1) \<and>
    (cdevice_type e = SDL_CONTROLLERDEVICEREMOVED \<and> gamepad_count w = 0 \<longrightarrow>
       handleControllerDeviceEvent w e = emit w (printf Controller_removed_when_none_connected)) \<and>
    \<bar>gamepad_count (final (dispatch kc w ev)) - gamepad_count w\<bar> \<le> 1 \<and>
    0 \<le> gamepad_count (final (pollEvents kc w queue))"
proof -
  have "handleControllerDeviceEvent w e = emit w (printf Controller_removed_when_none_connected)"
    if "cdevice_type e = SDL_CONTROLLERDEVICEREMOVED" "gamepad_count w = 0"
    using that by (simp add: handleControllerDeviceEvent_def)
  moreover have "\<bar>gamepad_count (final (dispatch kc w ev)) - gamepad_count w\<bar> \<le> 1"
    by (simp add: count_dispatch count_handleControllerDeviceEvent
        split: SDL_Event.split ControllerDeviceEventType.split)
  moreover note poll_count_nonneg [OF assms, of kc queue]
  ultimately show ?thesis
    using assms
    by (simp add: count_handleControllerDeviceEvent split: ControllerDeviceEventType.split)
qed

theorem gamepad_count_never_negative_witness:
  "0 \<le> gamepad_count constructed \<and>
   handleControllerDeviceEvent constructed
     \<lparr>cdevice_type = SDL_CONTROLLERDEVICEREMOVED, which = 3, opens = False\<rparr> =
     emit constructed (printf Controller_removed_when_none_connected) \<and>
   gamepad_count (handleControllerDeviceEvent constructed
     \<lparr>cdevice_type = SDL_CONTROLLERDEVICEADDED, which = 3, opens = True\<rparr>) = 1"
  using gamepad_count_never_negative
    [of constructed "\<lparr>cdevice_type = SDL_CONTROLLERDEVICEREMOVED, which = 3, opens = False\<rparr>"]
    gamepad_count_never_negative
    [of constructed "\<lparr>cdevice_type = SDL_CONTROLLERDEVICEADDED, which = 3, opens = True\<rparr>"]
  by (simp add: constructed_def)

section \<open>Which state callbacks a gamepad session makes\<close>

lemma fold_emit: "fold (\<lambda>x v. emit v x) xs w = w\<lparr>effects := effects w @ xs\<rparr>"
  by (induction xs arbitrary: w) (simp_all add: emit_def)

lemma gamepad_states_text_statements [simp]:
  "gamepad_states (drop n text_statements) = []"
proof -
  have "n = 0 \<or> n = 1 \<or> n = 2 \<or> n = 3 \<or> 4 \<le> n" by arith
  then show ?thesis
    by (auto simp add: text_statements_def)
qed

lemma states_text_switch [simp]:
  "gamepad_states (effects (final (text_switch kc w key))) = gamepad_states (effects w)"
  by (simp add: text_switch_def Let_def split: option.split)

lemma states_handleKeyboardEvent [simp]:
  "gamepad_states (effects (final (handleKeyboardEvent kc w e))) = gamepad_states (effects w)"
proof -
  have "gamepad_states (effects (final (case text_switch kc w k of Inl t \<Rightarrow> Inl t
          | Inr w' \<Rightarrow> Inr (emit w' (onKeyboard k a))))) =
        gamepad_states (effects (final (text_switch kc w k)))" for k a
    by (cases "text_switch kc w k") (auto simp: final_def)
  then show ?thesis
    by (simp add: handleKeyboardEvent_def Let_def)
qed

lemma states_handleControllerDeviceEvent:
  "gamepad_states (effects (handleControllerDeviceEvent w e)) =
     gamepad_states (effects w) @
       (if cdevice_type e = SDL_CONTROLLERDEVICEADDED \<and> gamepad_count w \<le> 0 then [(0, True)]
        else if cdevice_type e = SDL_CONTROLLERDEVICEREMOVED \<and> gamepad_count w = 1
          then [(0, False)]
        else [])"
  by (cases "cdevice_type e") (auto simp add: handleControllerDeviceEvent_def Let_def)

lemma states_dispatch:
  "gamepad_states (effects (final (dispatch kc w ev))) =
     (case ev of
        Event_cdevice e \<Rightarrow> gamepad_states (effects (handleControllerDeviceEvent w e))
      | _ \<Rightarrow> gamepad_states (effects w))"
proof (cases ev)
  case (Event_cdevice e)
  then show ?thesis
    by (cases "cdevice_type e") (simp_all add: states_handleControllerDeviceEvent)
next
  case (Event_key e)
  show ?thesis
  proof (cases "key_type e")
    case SDL_KEYDOWN
    show ?thesis
    proof (cases "handleKeyboardEvent kc w e")
      case (Inl t)
      with states_handleKeyboardEvent [of kc w e] SDL_KEYDOWN Event_key show ?thesis
        by simp
    next
      case (Inr w')
      with states_handleKeyboardEvent [of kc w e] states_handleKeyboardEvent [of kc w' e]
        SDL_KEYDOWN Event_key show ?thesis
        by simp
    qed
  next
    case SDL_KEYUP
    with Event_key show ?thesis by simp
  qed
qed (simp_all add: handleControllerAxisEvent_def Let_def handleControllerButtonEvent_def
      handleMouseMotionEvent_def handleMouseWheelEvent_def handleMouseClickEvent_def
      split: option.split)

text \<open>
  Claim C4. From a window whose count is not negative, a controller device event
  makes an \<^verbatim>\<open>onGamepadState\<close> call in two cases only: a connect at count \<open>0\<close>
  calls \<^verbatim>\<open>onGamepadState(0, true)\<close>, a disconnect at count \<open>1\<close> calls
  \<^verbatim>\<open>onGamepadState(0, false)\<close>. No other event of the poll loop makes the call.
  Polling the queue connect, connect (both opening), disconnect, disconnect on a
  fresh window gives the two calls, after the first and after the fourth event,
  and brings the count back to \<open>0\<close>.
\<close>

theorem gamepad_state_first_and_last:
  assumes "0 \<le> gamepad_count w"
  shows "gamepad_states (effects (handleControllerDeviceEvent w e)) =
       gamepad_states (effects w) @
         (if cdevice_type e = SDL_CONTROLLERDEVICEADDED \<and> gamepad_count w = 0 then [(0, True)]
          else if cdevice_type e = SDL_CONTROLLERDEVICEREMOVED \<and> gamepad_count w = 1
            then [(0, False)]
          else []) \<and>
     gamepad_states (effects (final (dispatch kc w ev))) =
       (case ev of
          Event_cdevice e \<Rightarrow> gamepad_states (effects (handleControllerDeviceEvent w e))
        | _ \<Rightarrow> gamepad_states (effects w)) \<and>
     pollEvents kc constructed
       [Event_cdevice \<lparr>cdevice_type = SDL_CONTROLLERDEVICEADDED, which = i, opens = True\<rparr>,
        Event_cdevice \<lparr>cdevice_type = SDL_CONTROLLERDEVICEADDED, which = j, opens = True\<rparr>,
        Event_cdevice \<lparr>cdevice_type = SDL_CONTROLLERDEVICEREMOVED, which = k, opens = o3\<rparr>,
        Event_cdevice \<lparr>cdevice_type = SDL_CONTROLLERDEVICEREMOVED, which = l, opens = o4\<rparr>] =
       Inr \<lparr>captured = False, gamepad_count = 0,
            effects =
              [printf (Controller_opened i), printf Connected_joysticks, onGamepadState 0 True,
               printf (Controller_opened j),
               printf (Controller_removed k),
               printf (Controller_removed l), printf Connected_joysticks,
               onGamepadState 0 False]\<rparr>"
proof -
  have "pollEvents kc constructed
       [Event_cdevice \<lparr>cdevice_type = SDL_CONTROLLERDEVICEADDED, which = i, opens = True\<rparr>,
        Event_cdevice \<lparr>cdevice_type = SDL_CONTROLLERDEVICEADDED, which = j, opens = True\<rparr>,
        Event_cdevice \<lparr>cdevice_type = SDL_CONTROLLERDEVICEREMOVED, which = k, opens = o3\<rparr>,
        Event_cdevice \<lparr>cdevice_type = SDL_CONTROLLERDEVICEREMOVED, which = l, opens = o4\<rparr>] =
       Inr \<lparr>captured = False, gamepad_count = 0,
            effects =
              [printf (Controller_opened i), printf Connected_joysticks, onGamepadState 0 True,
               printf (Controller_opened j),
               printf (Controller_removed k),
               printf (Controller_removed l), printf Connected_joysticks,
               onGamepadState 0 False]\<rparr>"
    by (simp add: handleControllerDeviceEvent_def constructed_def emit_def)
  moreover note states_dispatch [of kc w ev]
  ultimately show ?thesis
    using assms by (simp add: states_handleControllerDeviceEvent)
qed

theorem gamepad_state_first_and_last_witness:
  "0 \<le> gamepad_count constructed \<and>
   gamepad_states (effects (handleControllerDeviceEvent constructed
     \<lparr>cdevice_type = SDL_CONTROLLERDEVICEADDED, which = 0, opens = True\<rparr>)) = [(0, True)]"
  using gamepad_state_first_and_last
    [of constructed "\<lparr>cdevice_type = SDL_CONTROLLERDEVICEADDED, which = 0, opens = True\<rparr>"]
  by (simp add: constructed_def)

text \<open>
  Claim C3, as the specification states it: a connect event whose open fails makes
  no \<^verbatim>\<open>onGamepadState(0, true)\<close> call. The code does not look at the result of the
  open beyond choosing the message it prints: on a fresh window, a connect whose
  open fails makes the call.
\<close>

theorem failed_open_still_signals_counterexample:
  "handleControllerDeviceEvent constructed
     \<lparr>cdevice_type = SDL_CONTROLLERDEVICEADDED, which = 0, opens = False\<rparr> =
   \<lparr>captured = False, gamepad_count = 1,
    effects = [printf Couldnt_open_controller, printf Connected_joysticks, onGamepadState 0 True]\<rparr>"
  by (simp add: handleControllerDeviceEvent_def constructed_def emit_def)

text \<open>
  Claim C3, amended. A connect event whose open fails prints the failure and is
  otherwise handled as any connect: the count goes up by \<open>1\<close>, and
  \<^verbatim>\<open>onGamepadState(0, true)\<close> is called exactly when the count was not above \<open>0\<close>
  before the event. Its state calls and its count are those of the same event with
  an open that succeeds.
\<close>

theorem failed_open_handled_as_connect:
  assumes "cdevice_type e = SDL_CONTROLLERDEVICEADDED" and "\<not> opens e"
  shows "handleControllerDeviceEvent w e =
     w\<lparr>gamepad_count := gamepad_count w + 1,
       effects := effects w @ printf Couldnt_open_controller #
         (if gamepad_count w \<le> 0 then [printf Connected_joysticks, onGamepadState 0 True]
          else [])\<rparr> \<and>
     gamepad_states (effects (handleControllerDeviceEvent w e)) =
       gamepad_states (effects (handleControllerDeviceEvent w (e\<lparr>opens := True\<rparr>))) \<and>
     gamepad_count (handleControllerDeviceEvent w e) =
       gamepad_count (handleControllerDeviceEvent w (e\<lparr>opens := True\<rparr>))"
  using assms
  by (simp add: states_handleControllerDeviceEvent count_handleControllerDeviceEvent)
     (simp add: handleControllerDeviceEvent_def emit_def Let_def)

theorem failed_open_handled_as_connect_witness:
  "handleControllerDeviceEvent (constructed\<lparr>gamepad_count := 1\<rparr>)
     \<lparr>cdevice_type = SDL_CONTROLLERDEVICEADDED, which = 7, opens = False\<rparr> =
   \<lparr>captured = False, gamepad_count = 2, effects = [printf Couldnt_open_controller]\<rparr>"
  using failed_open_handled_as_connect
    [of "\<lparr>cdevice_type = SDL_CONTROLLERDEVICEADDED, which = 7, opens = False\<rparr>"
        "constructed\<lparr>gamepad_count := 1\<rparr>"]
  by (simp add: constructed_def)

section \<open>The scancode mapping\<close>

lemmas scancode_values =
  SDL_SCANCODE_A_def SDL_SCANCODE_Z_def SDL_SCANCODE_1_def
  SDL_SCANCODE_2_def SDL_SCANCODE_3_def SDL_SCANCODE_4_def
  SDL_SCANCODE_5_def SDL_SCANCODE_6_def SDL_SCANCODE_7_def
  SDL_SCANCODE_8_def SDL_SCANCODE_9_def SDL_SCANCODE_0_def
  SDL_SCANCODE_ESCAPE_def SDL_SCANCODE_BACKSPACE_def SDL_SCANCODE_TAB_def
  SDL_SCANCODE_SPACE_def SDL_SCANCODE_MINUS_def SDL_SCANCODE_EQUALS_def
  SDL_SCANCODE_LEFTBRACKET_def SDL_SCANCODE_RIGHTBRACKET_def SDL_SCANCODE_BACKSLASH_def
  SDL_SCANCODE_SEMICOLON_def SDL_SCANCODE_COMMA_def SDL_SCANCODE_PERIOD_def
  SDL_SCANCODE_SLASH_def SDL_SCANCODE_CAPSLOCK_def SDL_SCANCODE_INSERT_def
  SDL_SCANCODE_HOME_def SDL_SCANCODE_PAGEUP_def SDL_SCANCODE_DELETE_def
  SDL_SCANCODE_END_def SDL_SCANCODE_PAGEDOWN_def SDL_SCANCODE_RIGHT_def
  SDL_SCANCODE_LEFT_def SDL_SCANCODE_DOWN_def SDL_SCANCODE_KP_MINUS_def
  SDL_SCANCODE_KP_PLUS_def SDL_SCANCODE_KP_1_def SDL_SCANCODE_KP_2_def
  SDL_SCANCODE_KP_3_def SDL_SCANCODE_KP_4_def SDL_SCANCODE_KP_5_def
  SDL_SCANCODE_KP_6_def SDL_SCANCODE_KP_7_def SDL_SCANCODE_KP_8_def
  SDL_SCANCODE_KP_9_def SDL_SCANCODE_KP_0_def SDL_SCANCODE_MENU_def
  SDL_SCANCODE_LCTRL_def SDL_SCANCODE_LSHIFT_def SDL_SCANCODE_LALT_def
  SDL_SCANCODE_RCTRL_def SDL_SCANCODE_RSHIFT_def SDL_SCANCODE_RALT_def
  SDL_SCANCODE_AC_HOME_def SDL_SCANCODE_AC_BACK_def

lemma getKeyMinecraft_digits:
  "map (getKeyMinecraft kc) digit_scancodes = map kc digit_names"
  by (simp add: getKeyMinecraft_def digit_scancodes_def digit_names_def scancode_values)

lemma getKeyMinecraft_letter:
  "SDL_SCANCODE_A \<le> sc \<Longrightarrow> sc \<le> SDL_SCANCODE_Z \<Longrightarrow> getKeyMinecraft kc sc = sc + 61"
  by (simp add: getKeyMinecraft_def scancode_values)

lemma getKeyMinecraft_default:
  assumes "sc \<notin> set case_labels" and "\<not> (SDL_SCANCODE_A \<le> sc \<and> sc \<le> SDL_SCANCODE_Z)"
  shows "getKeyMinecraft kc sc = kc KeyCode_UNKNOWN"
proof -
  from assms(2) have range: "(SDL_SCANCODE_A \<le> sc \<and> sc \<le> SDL_SCANCODE_Z) = False"
    by simp
  from assms(1) show ?thesis
    unfolding getKeyMinecraft_def case_labels_def by (simp add: range)
qed

text \<open>
  Claim C7. \<open>getKeyMinecraft\<close> is a function of the scancode alone (and of the
  enumeration's values): it takes no window and returns none, each scancode has
  exactly one key code, and a scancode that is neither one of the \<^verbatim>\<open>case\<close> labels
  nor in the letter range \<^verbatim>\<open>SDL_SCANCODE_A ... SDL_SCANCODE_Z\<close> has the code \<^verbatim>\<open>UNKNOWN\<close>.
\<close>

theorem getKeyMinecraft_total_default:
  "(\<exists>!k. getKeyMinecraft kc sc = k) \<and>
   (sc \<notin> set case_labels \<and> \<not> (SDL_SCANCODE_A \<le> sc \<and> sc \<le> SDL_SCANCODE_Z) \<longrightarrow>
      getKeyMinecraft kc sc = kc KeyCode_UNKNOWN)"
  using getKeyMinecraft_default [of sc kc] by blast

theorem getKeyMinecraft_total_default_witness:
  "40 \<notin> set case_labels \<and> \<not> (SDL_SCANCODE_A \<le> 40 \<and> 40 \<le> SDL_SCANCODE_Z) \<and>
   getKeyMinecraft example_KeyCode 40 = example_KeyCode KeyCode_UNKNOWN"
  using getKeyMinecraft_total_default [of example_KeyCode 40]
  by (simp add: case_labels_def scancode_values)

text \<open>
  Claim C8. Where the ten enumerators \<^verbatim>\<open>NUM_0\<close> to \<^verbatim>\<open>NUM_9\<close> have ten different
  values, the mapping is a bijection from the ten digit scancodes onto them, each
  digit scancode going to the enumerator of its own digit. On the twenty-six
  scancodes from \<^verbatim>\<open>SDL_SCANCODE_A\<close> to \<^verbatim>\<open>SDL_SCANCODE_Z\<close> it adds \<open>61\<close>: it is injective
  and strictly increasing there, and its image is the interval from \<open>65\<close> to \<open>90\<close>.
\<close>

theorem digits_bijective_letters_offset:
  assumes "distinct (map kc digit_names)"
  shows "bij_betw (getKeyMinecraft kc) (set digit_scancodes) (set (map kc digit_names)) \<and>
    map (getKeyMinecraft kc) digit_scancodes = map kc digit_names \<and>
    card (set digit_scancodes) = 10 \<and>
    card {SDL_SCANCODE_A..SDL_SCANCODE_Z} = 26 \<and>
    (\<forall>sc\<in>{SDL_SCANCODE_A..SDL_SCANCODE_Z}. getKeyMinecraft kc sc = sc + 61) \<and>
    inj_on (getKeyMinecraft kc) {SDL_SCANCODE_A..SDL_SCANCODE_Z} \<and>
    (\<forall>a\<in>{SDL_SCANCODE_A..SDL_SCANCODE_Z}. \<forall>b\<in>{SDL_SCANCODE_A..SDL_SCANCODE_Z}.
       a < b \<longrightarrow> getKeyMinecraft kc a < getKeyMinecraft kc b) \<and>
    getKeyMinecraft kc ` {SDL_SCANCODE_A..SDL_SCANCODE_Z} = {65..90}"
proof -
  have letter: "getKeyMinecraft kc sc = sc + 61" if "sc \<in> {SDL_SCANCODE_A..SDL_SCANCODE_Z}" for sc
    using that by (simp add: getKeyMinecraft_letter)
  have "distinct (map (getKeyMinecraft kc) digit_scancodes)"
    using assms by (simp only: getKeyMinecraft_digits)
  then have "inj_on (getKeyMinecraft kc) (set digit_scancodes)"
    by (simp only: distinct_map)
  moreover have "getKeyMinecraft kc ` set digit_scancodes = set (map kc digit_names)"
    by (simp only: getKeyMinecraft_digits [symmetric] set_map)
  ultimately have digits:
    "bij_betw (getKeyMinecraft kc) (set digit_scancodes) (set (map kc digit_names))"
    by (simp only: bij_betw_def simp_thms)
  have ten: "card (set digit_scancodes) = 10"
    by (simp add: digit_scancodes_def scancode_values)
  have inj: "inj_on (getKeyMinecraft kc) {SDL_SCANCODE_A..SDL_SCANCODE_Z}"
    by (rule inj_onI) (simp add: letter)
  have mono: "\<forall>a\<in>{SDL_SCANCODE_A..SDL_SCANCODE_Z}. \<forall>b\<in>{SDL_SCANCODE_A..SDL_SCANCODE_Z}.
       a < b \<longrightarrow> getKeyMinecraft kc a < getKeyMinecraft kc b"
    by (simp add: letter)
  have "getKeyMinecraft kc ` {SDL_SCANCODE_A..SDL_SCANCODE_Z} =
      (\<lambda>sc. sc + 61) ` {SDL_SCANCODE_A..SDL_SCANCODE_Z}"
    by (rule image_cong) (simp_all add: letter)
  also have "\<dots> = {65..90}"
    by (simp add: SDL_SCANCODE_A_def SDL_SCANCODE_Z_def)
  finally have img: "getKeyMinecraft kc ` {SDL_SCANCODE_A..SDL_SCANCODE_Z} = {65..90}" .
  have card: "card {SDL_SCANCODE_A..SDL_SCANCODE_Z} = 26"
    by (simp add: SDL_SCANCODE_A_def SDL_SCANCODE_Z_def)
  have all: "\<forall>sc\<in>{SDL_SCANCODE_A..SDL_SCANCODE_Z}. getKeyMinecraft kc sc = sc + 61"
    using letter by blast
  show ?thesis
    using digits getKeyMinecraft_digits [of kc] ten card all inj mono img
    by (intro conjI)
qed

theorem digits_bijective_letters_offset_witness:
  "distinct (map example_KeyCode digit_names) \<and>
   bij_betw (getKeyMinecraft example_KeyCode) (set digit_scancodes)
     {48, 49, 50, 51, 52, 53, 54, 55, 56, 57} \<and>
   getKeyMinecraft example_KeyCode ` {SDL_SCANCODE_A..SDL_SCANCODE_Z} = {65..90}"
proof -
  have d: "distinct (map example_KeyCode digit_names)"
    by (simp add: example_KeyCode_def digit_names_def)
  have s: "set (map example_KeyCode digit_names) = {48, 49, 50, 51, 52, 53, 54, 55, 56, 57}"
    by (simp add: example_KeyCode_def digit_names_def)
  note t = digits_bijective_letters_offset [OF d]
  from t have "bij_betw (getKeyMinecraft example_KeyCode) (set digit_scancodes)
      (set (map example_KeyCode digit_names))"
    by (rule conjunct1)
  then have b: "bij_betw (getKeyMinecraft example_KeyCode) (set digit_scancodes)
      {48, 49, 50, 51, 52, 53, 54, 55, 56, 57}"
    by (simp only: s)
  from t have i: "getKeyMinecraft example_KeyCode ` {SDL_SCANCODE_A..SDL_SCANCODE_Z} = {65..90}"
    by blast
  from d b i show ?thesis
    by (intro conjI)
qed

section \<open>Key presses\<close>

lemma keyboard_calls_text_statements [simp]:
  "keyboard_calls (drop n text_statements) = []"
proof -
  have "n = 0 \<or> n = 1 \<or> n = 2 \<or> n = 3 \<or> 4 \<le> n" by arith
  then show ?thesis
    by (auto simp add: text_statements_def)
qed

text \<open>
  Claim C1 says that a key press delivers exactly one text payload, the one of its
  own row. The \<^verbatim>\<open>switch\<close> has no \<^verbatim>\<open>break\<close>: a press of BACKSPACE delivers the
  payloads of all five rows, one call each, in order: \<open>0x08\<close>, \<open>0x7F\<close>, the newline,
  \<open>0x1B\<close> and the UTF-8 encoding of BACKSPACE's own code (or, where that code cannot
  be encoded, the first four and then the exception). With BACKSPACE numbered \<open>8\<close>
  the payloads are \<open>08\<close>, \<open>7F\<close>, \<open>0A\<close>, \<open>1B\<close>, \<open>08\<close>.
\<close>

theorem backspace_press_runs_every_text_case:
  "handleKeyboardEvent kc w
     \<lparr>key_type = SDL_KEYDOWN, key_state = SDL_PRESSED, repeat = 0,
      scancode = SDL_SCANCODE_BACKSPACE\<rparr> =
   (case to_bytes (kc KeyCode_BACKSPACE) of
      None \<Rightarrow>
        Inl (range_error,
          w\<lparr>effects := effects w @
            [onKeyboardText [0x08], onKeyboardText [0x7F], onKeyboardText [0x0A],
             onKeyboardText [0x1B]]\<rparr>)
    | Some bytes \<Rightarrow>
        Inr (w\<lparr>effects := effects w @
            [onKeyboardText [0x08], onKeyboardText [0x7F], onKeyboardText [0x0A],
             onKeyboardText [0x1B], onKeyboardText bytes,
             onKeyboard (kc KeyCode_BACKSPACE) KeyAction_PRESS]\<rparr>)) \<and>
   text_payloads (effects (final (handleKeyboardEvent example_KeyCode constructed
     \<lparr>key_type = SDL_KEYDOWN, key_state = SDL_PRESSED, repeat = 0,
      scancode = SDL_SCANCODE_BACKSPACE\<rparr>))) = [[0x08], [0x7F], [0x0A], [0x1B], [0x08]]"
proof -
  have key: "getKeyMinecraft kc SDL_SCANCODE_BACKSPACE = kc KeyCode_BACKSPACE" for kc
    by (simp add: getKeyMinecraft_def scancode_values)
  have general: "handleKeyboardEvent kc w
     \<lparr>key_type = SDL_KEYDOWN, key_state = SDL_PRESSED, repeat = 0,
      scancode = SDL_SCANCODE_BACKSPACE\<rparr> =
   (case to_bytes (kc KeyCode_BACKSPACE) of
      None \<Rightarrow>
        Inl (range_error,
          w\<lparr>effects := effects w @
            [onKeyboardText [0x08], onKeyboardText [0x7F], onKeyboardText [0x0A],
             onKeyboardText [0x1B]]\<rparr>)
    | Some bytes \<Rightarrow>
        Inr (w\<lparr>effects := effects w @
            [onKeyboardText [0x08], onKeyboardText [0x7F], onKeyboardText [0x0A],
             onKeyboardText [0x1B], onKeyboardText bytes,
             onKeyboard (kc KeyCode_BACKSPACE) KeyAction_PRESS]\<rparr>))" for kc w
    by (simp add: handleKeyboardEvent_def key text_switch_def text_label_def
        text_statements_def emit_def SDL_PRESSED_def split: option.split)
  have "to_bytes (example_KeyCode KeyCode_BACKSPACE) = Some [0x08]"
    by (simp add: example_KeyCode_def to_bytes_def)
  then have "text_payloads (effects (final (handleKeyboardEvent example_KeyCode constructed
     \<lparr>key_type = SDL_KEYDOWN, key_state = SDL_PRESSED, repeat = 0,
      scancode = SDL_SCANCODE_BACKSPACE\<rparr>))) = [[0x08], [0x7F], [0x0A], [0x1B], [0x08]]"
    by (simp add: general constructed_def)
  with general show ?thesis
    by (intro conjI)
qed

text \<open>
  Claim C2 says that the poll loop runs the keyboard handler once for a key-down
  event and once for a key-up event. \<^verbatim>\<open>case SDL_KEYDOWN\<close> has no \<^verbatim>\<open>break\<close>: polling
  one key-down event of the key A makes two \<^verbatim>\<open>onKeyboard(65, PRESS)\<close> calls (and runs
  the text synthesis twice), whatever the enumeration's values are; one key-up
  event makes one \<^verbatim>\<open>onKeyboard(65, RELEASE)\<close> call.
\<close>

theorem key_down_dispatched_twice:
  "keyboard_calls (effects (final (pollEvents kc w
     [Event_key \<lparr>key_type = SDL_KEYDOWN, key_state = SDL_PRESSED, repeat = 0,
                 scancode = SDL_SCANCODE_A\<rparr>]))) =
     keyboard_calls (effects w) @ [(65, KeyAction_PRESS), (65, KeyAction_PRESS)] \<and>
   keyboard_calls (effects (final (pollEvents kc w
     [Event_key \<lparr>key_type = SDL_KEYUP, key_state = SDL_RELEASED, repeat = 0,
                 scancode = SDL_SCANCODE_A\<rparr>]))) =
     keyboard_calls (effects w) @ [(65, KeyAction_RELEASE)] \<and>
   pollEvents example_KeyCode constructed
     [Event_key \<lparr>key_type = SDL_KEYDOWN, key_state = SDL_PRESSED, repeat = 0,
                 scancode = SDL_SCANCODE_A\<rparr>] =
     Inr \<lparr>captured = False, gamepad_count = 0,
          effects = [onKeyboardText [0x41], onKeyboard 65 KeyAction_PRESS,
                     onKeyboardText [0x41], onKeyboard 65 KeyAction_PRESS]\<rparr>"
proof -
  have key: "getKeyMinecraft kc SDL_SCANCODE_A = 65" for kc
    by (simp add: getKeyMinecraft_def scancode_values)
  have bytes: "to_bytes 65 = Some [0x41]"
    by (simp add: to_bytes_def)
  have press: "handleKeyboardEvent kc v
      \<lparr>key_type = t, key_state = SDL_PRESSED, repeat = 0, scancode = SDL_SCANCODE_A\<rparr> =
     Inr (v\<lparr>effects := effects v @ drop (text_label kc 65) text_statements @
            [onKeyboardText [0x41], onKeyboard 65 KeyAction_PRESS]\<rparr>)" for kc v t
    by (simp add: handleKeyboardEvent_def key bytes text_switch_def Let_def fold_emit
        SDL_PRESSED_def)
  have release: "handleKeyboardEvent kc v
      \<lparr>key_type = t, key_state = SDL_RELEASED, repeat = 0, scancode = SDL_SCANCODE_A\<rparr> =
     Inr (v\<lparr>effects := effects v @ [onKeyboard 65 KeyAction_RELEASE]\<rparr>)" for kc v t
    by (simp add: handleKeyboardEvent_def key emit_def SDL_PRESSED_def SDL_RELEASED_def)
  have down: "keyboard_calls (effects (final (pollEvents kc w
     [Event_key \<lparr>key_type = SDL_KEYDOWN, key_state = SDL_PRESSED, repeat = 0,
                 scancode = SDL_SCANCODE_A\<rparr>]))) =
     keyboard_calls (effects w) @ [(65, KeyAction_PRESS), (65, KeyAction_PRESS)]"
    by (simp add: press)
  have up: "keyboard_calls (effects (final (pollEvents kc w
     [Event_key \<lparr>key_type = SDL_KEYUP, key_state = SDL_RELEASED, repeat = 0,
                 scancode = SDL_SCANCODE_A\<rparr>]))) =
     keyboard_calls (effects w) @ [(65, KeyAction_RELEASE)]"
    by (simp add: release)
  have "text_label example_KeyCode 65 = 4"
    by (simp add: text_label_def example_KeyCode_def)
  then have example: "pollEvents example_KeyCode constructed
     [Event_key \<lparr>key_type = SDL_KEYDOWN, key_state = SDL_PRESSED, repeat = 0,
                 scancode = SDL_SCANCODE_A\<rparr>] =
     Inr \<lparr>captured = False, gamepad_count = 0,
          effects = [onKeyboardText [0x41], onKeyboard 65 KeyAction_PRESS,
                     onKeyboardText [0x41], onKeyboard 65 KeyAction_PRESS]\<rparr>"
    by (simp add: press constructed_def text_statements_def)
  from down up example show ?thesis
    by (intro conjI)
qed

end
